theory Spec2Isabelle
  imports Complex_Main "HOL-Library.Word"
begin

section \<open>Common types\<close>

text \<open>A Node \<open>Buffer\<close> is a sequence of bytes.\<close>

type_synonym byte = "8 word"
type_synonym buffer = "byte list"

text \<open>
  What a JavaScript \<open>throw\<close> (or a rejected promise) carries: an \<open>Error\<close> instance with its
  message, or some other value. The IPC handlers distinguish the two with
  \<open>error instanceof Error\<close>.
\<close>

datatype thrown = Error string | NonError

section \<open>Audio capture: \<open>AudioService\<close>\<close>

text \<open>
  The events the service emits through its \<open>EventEmitter\<close>. A \<open>level\<close> event is
  recorded with the chunk whose loudness it reports (the floating-point value of
  \<open>calculateLevel\<close> is not modelled). A \<open>stopped\<close> event carries the buffer and the
  duration in milliseconds; the duration is \<open>None\<close> where the JavaScript division by a
  zero sample rate gives no finite number.
\<close>

datatype audio_event =
    Started
  | Level buffer
  | Stopped buffer "rat option"
  | Cancelled
  | AudioError thrown

text \<open>The fields \<open>cfg_...\<close> are the service's \<open>config\<close>.\<close>

record audio_service =
  audioIO :: bool
  chunks :: "buffer list"
  isRecording :: bool
  cfg_sampleRate :: nat
  cfg_channels :: nat
  cfg_deviceId :: "int option"
  errorListener :: bool
  emitted :: "audio_event list"
  console :: "string list"

text \<open>\<open>new AudioService()\<close>: 16 kHz, mono, no device chosen, no listener yet.\<close>

definition new_AudioService :: audio_service where
  "new_AudioService =
     \<lparr>audioIO = False, chunks = [], isRecording = False, cfg_sampleRate = 16000,
      cfg_channels = 1, cfg_deviceId = None, errorListener = False, emitted = [], console = []\<rparr>"

text \<open>How opening the input device goes: the \<open>AudioIO\<close> constructor or its \<open>start\<close> may throw.\<close>

datatype device = DeviceOk | OpenFails thrown | StartFails thrown

text \<open>
  \<open>emit('error', err)\<close>: with no listener for \<open>error\<close>, Node's \<open>EventEmitter\<close> throws
  (the error itself when it is an \<open>Error\<close>, a fresh \<open>Error\<close> otherwise).
\<close>

definition emit_error :: "thrown \<Rightarrow> audio_service \<Rightarrow> (thrown + unit) \<times> audio_service" where
  "emit_error err a =
     (if errorListener a then (Inr (), a\<lparr>emitted := emitted a @ [AudioError err]\<rparr>)
      else (Inl (case err of Error m \<Rightarrow> Error m | NonError \<Rightarrow> Error ''Unhandled error.''), a))"

definition setDevice :: "int \<Rightarrow> audio_service \<Rightarrow> audio_service" where
  "setDevice d a = a\<lparr>cfg_deviceId := Some d\<rparr>"

definition startRecording :: "device \<Rightarrow> audio_service \<Rightarrow> (thrown + unit) \<times> audio_service" where
  "startRecording dev a =
     (if isRecording a then (Inr (), a\<lparr>console := console a @ [''Already recording'']\<rparr>)
      else
        let a1 = a\<lparr>chunks := [], isRecording := True\<rparr> in
        case dev of
          DeviceOk \<Rightarrow> (Inr (), a1\<lparr>audioIO := True, emitted := emitted a1 @ [Started]\<rparr>)
        | OpenFails err \<Rightarrow>
            emit_error err
              (a1\<lparr>isRecording := False,
                  console := console a1 @ [''Failed to start recording:'']\<rparr>)
        | StartFails err \<Rightarrow>
            emit_error err
              (a1\<lparr>audioIO := True, isRecording := False,
                  console := console a1 @ [''Failed to start recording:'']\<rparr>))"

text \<open>The \<open>data\<close> handler of the open stream: keep the chunk, report its level.\<close>

definition on_data :: "buffer \<Rightarrow> audio_service \<Rightarrow> audio_service" where
  "on_data chunk a = a\<lparr>chunks := chunks a @ [chunk], emitted := emitted a @ [Level chunk]\<rparr>"

definition cleanup :: "audio_service \<Rightarrow> audio_service" where
  "cleanup a = a\<lparr>audioIO := False, isRecording := False, chunks := []\<rparr>"

text \<open>
  The \<open>error\<close> handler of the open stream: log, emit \<open>error\<close>, then clean up (the
  clean-up is not reached when the emit throws).
\<close>

definition on_error :: "thrown \<Rightarrow> audio_service \<Rightarrow> (thrown + unit) \<times> audio_service" where
  "on_error err a =
     (case emit_error err (a\<lparr>console := console a @ [''Audio error:'']\<rparr>) of
        (Inl e, a1) \<Rightarrow> (Inl e, a1)
      | (Inr u, a1) \<Rightarrow> (Inr (), cleanup a1))"

text \<open>\<open>(audioBuffer.length / 2) / sampleRate * 1000\<close>\<close>

definition duration_ms :: "nat \<Rightarrow> nat \<Rightarrow> rat option" where
  "duration_ms len rate =
     (if rate = 0 then None else Some (of_nat len / 2 / of_nat rate * 1000))"

definition stopRecording :: "audio_service \<Rightarrow> (thrown + buffer) \<times> audio_service" where
  "stopRecording a =
     (if \<not> isRecording a then (Inl (Error ''Not recording''), a)
      else
        let a1 = cleanup a;
            audioBuffer = concat (chunks a1);
            duration = duration_ms (length audioBuffer) (cfg_sampleRate a1)
        in (Inr audioBuffer, a1\<lparr>emitted := emitted a1 @ [Stopped audioBuffer duration]\<rparr>))"

definition cancelRecording :: "audio_service \<Rightarrow> audio_service" where
  "cancelRecording a =
     (if \<not> isRecording a then a
      else let a1 = cleanup a in a1\<lparr>emitted := emitted a1 @ [Cancelled]\<rparr>)"

definition getIsRecording :: "audio_service \<Rightarrow> bool" where
  "getIsRecording a = isRecording a"

text \<open>A capture session: start on a working device, then the chunks arrive in order.\<close>

definition capture :: "buffer list \<Rightarrow> audio_service \<Rightarrow> audio_service" where
  "capture cs a = foldl (\<lambda>s c. on_data c s) (snd (startRecording DeviceOk a)) cs"

section \<open>WAV container: \<open>encodeWav\<close>\<close>

text \<open>
  \<open>Buffer.alloc\<close> and the \<open>writeUInt..LE\<close> methods throw a \<open>RangeError\<close> (code
  \<open>ERR_OUT_OF_RANGE\<close>) on a size or value outside their range; the message is abbreviated
  to the code here.
\<close>

definition range_error :: thrown where
  "range_error = Error ''ERR_OUT_OF_RANGE''"

text \<open>\<open>buffer.write(str, offset)\<close> of an ASCII string: one byte per character.\<close>

definition ascii :: "string \<Rightarrow> buffer" where
  "ascii s = map (\<lambda>c. of_nat (of_char c)) s"

text \<open>
  \<open>writeUInt32LE(value)\<close> and \<open>writeUInt16LE(value)\<close>: the value is a JavaScript number,
  here a rational; it must lie within the unsigned range, and its integral part is stored
  low byte first.
\<close>

definition writeUInt32LE :: "rat \<Rightarrow> thrown + buffer" where
  "writeUInt32LE v =
     (if v < 0 \<or> v > 4294967295 then Inl range_error
      else let n = nat \<lfloor>v\<rfloor> in
        Inr [of_nat n, of_nat (n div 256), of_nat (n div 65536), of_nat (n div 16777216)])"

definition writeUInt16LE :: "rat \<Rightarrow> thrown + buffer" where
  "writeUInt16LE v =
     (if v < 0 \<or> v > 65535 then Inl range_error
      else let n = nat \<lfloor>v\<rfloor> in Inr [of_nat n, of_nat (n div 256)])"

definition readUInt32LE :: "buffer \<Rightarrow> nat \<Rightarrow> nat" where
  "readUInt32LE b off =
     unat (b ! off) + 256 * unat (b ! (off + 1)) + 65536 * unat (b ! (off + 2))
       + 16777216 * unat (b ! (off + 3))"

text \<open>Sequencing of steps that may throw: the first failure is the result.\<close>

definition and_then :: "thrown + 'a \<Rightarrow> ('a \<Rightarrow> thrown + 'b) \<Rightarrow> thrown + 'b" where
  "and_then r f = (case r of Inl e \<Rightarrow> Inl e | Inr x \<Rightarrow> f x)"

text \<open>
  \<open>encodeWav(audioBuffer, sampleRate, channels, bitsPerSample)\<close>. The target buffer is
  allocated first (\<open>kMaxLength\<close> is the platform's largest buffer size), the header fields
  are written in order, and the audio data is copied behind them. The numeric parameters
  are natural numbers here.
\<close>

definition encodeWav :: "nat \<Rightarrow> buffer \<Rightarrow> nat \<Rightarrow> nat \<Rightarrow> nat \<Rightarrow> thrown + buffer" where
  "encodeWav kMaxLength audioBuffer sampleRate channels bitsPerSample =
     (let dataLength = length audioBuffer;
          headerLength = 44;
          totalLength = headerLength + dataLength
      in
      if totalLength > kMaxLength then Inl range_error
      else
        and_then (writeUInt32LE (of_nat totalLength - 8)) (\<lambda>riffSize.
        and_then (writeUInt32LE 16) (\<lambda>fmtSize.
        and_then (writeUInt16LE 1) (\<lambda>pcm.
        and_then (writeUInt16LE (of_nat channels)) (\<lambda>ch.
        and_then (writeUInt32LE (of_nat sampleRate)) (\<lambda>sr.
        and_then (writeUInt32LE (of_nat sampleRate * of_nat channels * of_nat bitsPerSample / 8))
          (\<lambda>byteRate.
        and_then (writeUInt16LE (of_nat channels * of_nat bitsPerSample / 8)) (\<lambda>blockAlign.
        and_then (writeUInt16LE (of_nat bitsPerSample)) (\<lambda>bps.
        and_then (writeUInt32LE (of_nat dataLength)) (\<lambda>dataSize.
          Inr (ascii ''RIFF'' @ riffSize @ ascii ''WAVE''
               @ ascii ''fmt '' @ fmtSize @ pcm @ ch @ sr @ byteRate @ blockAlign @ bps
               @ ascii ''data'' @ dataSize
               @ audioBuffer)))))))))))"

section \<open>Transcription: the OpenAI service and the \<open>TranscriptionManager\<close>\<close>

record TranscriptionOptions =
  opt_language :: "string option"
  opt_prompt :: "string option"
  opt_temperature :: "rat option"
  opt_wordTimestamps :: "bool option"

text \<open>Segments and words: start, end, text.\<close>

type_synonym timed = "rat \<times> rat \<times> string"

record TranscriptionResult =
  res_text :: string
  res_language :: string
  res_duration :: rat
  res_segments :: "timed list option"
  res_words :: "timed list option"

datatype OpenAIModel = whisper_1 | gpt_4o_transcribe

text \<open>The request sent to the remote API, and its \<open>verbose_json\<close> answer.\<close>

record api_params =
  p_apiKey :: string
  p_file :: buffer
  p_model :: OpenAIModel
  p_language :: "string option"
  p_prompt :: "string option"
  p_temperature :: "rat option"
  p_timestamp_granularities :: "string list option"

record api_response =
  a_text :: string
  a_language :: "string option"
  a_duration :: "rat option"
  a_segments :: "timed list option"
  a_words :: "timed list option"

type_synonym api = "api_params \<Rightarrow> thrown + api_response"

record OpenAITranscriptionService =
  svc_name :: string
  svc_apiKey :: string
  svc_model :: OpenAIModel

definition new_OpenAITranscriptionService :: "string \<Rightarrow> OpenAIModel \<Rightarrow> OpenAITranscriptionService" where
  "new_OpenAITranscriptionService apiKey model =
     \<lparr>svc_name = ''OpenAI Whisper'', svc_apiKey = apiKey, svc_model = model\<rparr>"

definition setModel :: "OpenAIModel \<Rightarrow> OpenAITranscriptionService \<Rightarrow> OpenAITranscriptionService" where
  "setModel model svc = svc\<lparr>svc_model := model\<rparr>"

definition setApiKey :: "string \<Rightarrow> OpenAITranscriptionService \<Rightarrow> OpenAITranscriptionService" where
  "setApiKey apiKey svc = svc\<lparr>svc_apiKey := apiKey\<rparr>"

text \<open>JavaScript truthiness of an optional string: defined and not empty.\<close>

definition truthy :: "string option \<Rightarrow> bool" where
  "truthy s = (case s of None \<Rightarrow> False | Some v \<Rightarrow> v \<noteq> [])"

text \<open>
  Seconds to milliseconds. The products with 1000 are exact products of rationals here;
  the code's are products of 64-bit floating-point numbers, rounded to the nearest one.
\<close>

definition to_ms :: "timed \<Rightarrow> timed" where
  "to_ms t = (case t of (s, e, w) \<Rightarrow> (s * 1000, e * 1000, w))"

definition service_transcribe ::
  "nat \<Rightarrow> api \<Rightarrow> OpenAITranscriptionService \<Rightarrow> buffer \<Rightarrow> TranscriptionOptions
     \<Rightarrow> thrown + TranscriptionResult" where
  "service_transcribe kMaxLength remote svc audio options =
     and_then (encodeWav kMaxLength audio 16000 1 16) (\<lambda>wavBuffer.
       let params =
             \<lparr>p_apiKey = svc_apiKey svc, p_file = wavBuffer, p_model = svc_model svc,
              p_language = (if truthy (opt_language options) then opt_language options else None),
              p_prompt = (if truthy (opt_prompt options) then opt_prompt options else None),
              p_temperature = opt_temperature options,
              p_timestamp_granularities =
                (if opt_wordTimestamps options = Some True then Some [''word'', ''segment'']
                 else None)\<rparr>
       in
       and_then (remote params) (\<lambda>result.
         Inr \<lparr>res_text = a_text result,
              res_language = (if truthy (a_language result) then the (a_language result)
                              else ''unknown''),
              res_duration = (case a_duration result of None \<Rightarrow> 0 | Some d \<Rightarrow> d) * 1000,
              res_segments = map_option (map to_ms) (a_segments result),
              res_words = map_option (map to_ms) (a_words result)\<rparr>))"

text \<open>
  A JavaScript \<open>Map\<close> keeps its keys in insertion order, each once: \<open>set\<close> replaces the
  value of a key that is present where it stands and appends a new key at the end.
\<close>

fun Map_set :: "'k \<Rightarrow> 'v \<Rightarrow> ('k \<times> 'v) list \<Rightarrow> ('k \<times> 'v) list" where
  "Map_set k v [] = [(k, v)]"
| "Map_set k v (p # ps) = (if fst p = k then (k, v) # ps else p # Map_set k v ps)"

definition Map_get :: "('k \<times> 'v) list \<Rightarrow> 'k \<Rightarrow> 'v option" where
  "Map_get m k = map_of m k"

definition Map_has :: "('k \<times> 'v) list \<Rightarrow> 'k \<Rightarrow> bool" where
  "Map_has m k = (Map_get m k \<noteq> None)"

definition Map_keys :: "('k \<times> 'v) list \<Rightarrow> 'k list" where
  "Map_keys m = map fst m"

text \<open>
  The manager's map of services; the only instances ever registered are OpenAI services.
\<close>

record TranscriptionManager =
  services :: "(string \<times> OpenAITranscriptionService) list"
  primaryService :: string

definition new_TranscriptionManager :: TranscriptionManager where
  "new_TranscriptionManager = \<lparr>services = [], primaryService = ''openai''\<rparr>"

text \<open>
  \<open>configureOpenAI\<close>: an instance already registered under \<open>openai\<close> is mutated (it stays
  the value of its key); otherwise a new instance is registered.
\<close>

definition configureOpenAI :: "string \<Rightarrow> OpenAIModel \<Rightarrow> TranscriptionManager \<Rightarrow> TranscriptionManager" where
  "configureOpenAI apiKey model m =
     (case Map_get (services m) ''openai'' of
        Some existing \<Rightarrow>
          m\<lparr>services := Map_set ''openai'' (setModel model (setApiKey apiKey existing)) (services m)\<rparr>
      | None \<Rightarrow>
          m\<lparr>services := Map_set ''openai'' (new_OpenAITranscriptionService apiKey model) (services m)\<rparr>)"

definition setPrimaryService :: "string \<Rightarrow> TranscriptionManager \<Rightarrow> thrown + TranscriptionManager" where
  "setPrimaryService name m =
     (if \<not> Map_has (services m) name then Inl (Error (''Service '' @ name @ '' not configured''))
      else Inr (m\<lparr>primaryService := name\<rparr>))"

definition getPrimaryService :: "TranscriptionManager \<Rightarrow> string" where
  "getPrimaryService m = primaryService m"

definition manager_transcribe ::
  "nat \<Rightarrow> api \<Rightarrow> TranscriptionManager \<Rightarrow> buffer \<Rightarrow> TranscriptionOptions
     \<Rightarrow> thrown + TranscriptionResult" where
  "manager_transcribe kMaxLength remote m audio options =
     (case Map_get (services m) (primaryService m) of
        None \<Rightarrow>
          Inl (Error (''Transcription service '' @ [CHR 0x27] @ primaryService m @ [CHR 0x27]
                      @ '' not configured''))
      | Some service \<Rightarrow> service_transcribe kMaxLength remote service audio options)"

definition getAvailableServices :: "TranscriptionManager \<Rightarrow> string list" where
  "getAvailableServices m = Map_keys (services m)"

definition isConfigured :: "TranscriptionManager \<Rightarrow> bool" where
  "isConfigured m = Map_has (services m) (primaryService m)"

definition getServiceName :: "TranscriptionManager \<Rightarrow> string" where
  "getServiceName m =
     (case Map_get (services m) (primaryService m) of
        None \<Rightarrow> ''Unknown''
      | Some service \<Rightarrow> (if svc_name service = [] then ''Unknown'' else svc_name service))"

section \<open>History: \<open>TranscriptionDatabase\<close>\<close>

record StoredTranscription =
  st_id :: nat
  st_text :: string
  st_language :: string
  st_duration :: int
  st_service :: string
  st_createdAt :: nat

text \<open>
  The table \<open>transcriptions\<close> (rows in rowid order), the content of the full-text index
  \<open>transcriptions_fts\<close> (rowid and indexed text) and the counter that \<open>AUTOINCREMENT\<close>
  keeps of the largest rowid ever used.
\<close>

record database =
  rows :: "StoredTranscription list"
  fts :: "(nat \<times> string) list"
  seq :: nat

definition new_TranscriptionDatabase :: database where
  "new_TranscriptionDatabase = \<lparr>rows = [], fts = [], seq = 0\<rparr>"

text \<open>\<open>Math.round\<close>: the nearest integer, a tie going up.\<close>

definition Math_round :: "rat \<Rightarrow> int" where
  "Math_round x = \<lfloor>x + 1 / 2\<rfloor>"

text \<open>The triggers \<open>transcriptions_ai\<close> and \<open>transcriptions_ad\<close> on the index.\<close>

definition transcriptions_ai :: "StoredTranscription \<Rightarrow> (nat \<times> string) list \<Rightarrow> (nat \<times> string) list" where
  "transcriptions_ai new idx = idx @ [(st_id new, st_text new)]"

definition transcriptions_ad :: "StoredTranscription \<Rightarrow> (nat \<times> string) list \<Rightarrow> (nat \<times> string) list" where
  "transcriptions_ad old idx = remove1 (st_id old, st_text old) idx"

text \<open>
  The trigger \<open>transcriptions_au\<close>; no statement of the program updates a row, so it
  never runs.
\<close>

definition transcriptions_au ::
  "StoredTranscription \<Rightarrow> StoredTranscription \<Rightarrow> (nat \<times> string) list \<Rightarrow> (nat \<times> string) list" where
  "transcriptions_au old new idx = transcriptions_ai new (transcriptions_ad old idx)"

text \<open>
  \<open>insert\<close>: the new rowid is one more than the largest ever used, the creation time is
  the current time \<open>now\<close>, and the insert trigger runs in the same statement.
\<close>

definition insert_db :: "nat \<Rightarrow> TranscriptionResult \<Rightarrow> string \<Rightarrow> database \<Rightarrow> nat \<times> database" where
  "insert_db now result service db =
     (let k = Suc (fold max (map st_id (rows db)) (seq db));
          new = \<lparr>st_id = k, st_text = res_text result, st_language = res_language result,
                 st_duration = Math_round (res_duration result), st_service = service,
                 st_createdAt = now\<rparr>
      in (k, \<lparr>rows = rows db @ [new], fts = transcriptions_ai new (fts db), seq = k\<rparr>))"

text \<open>
  \<open>ORDER BY created_at DESC\<close>: a stable sort on the creation time, latest first; rows of
  one creation time stay in rowid order, the older row first, as SQLite returns them.
  \<open>LIMIT n\<close>: a negative \<open>n\<close> is no limit.
\<close>

definition order_by_created_at_desc :: "StoredTranscription list \<Rightarrow> StoredTranscription list" where
  "order_by_created_at_desc rs = sort_key (\<lambda>r. - int (st_createdAt r)) rs"

definition sql_limit :: "int \<Rightarrow> 'a list \<Rightarrow> 'a list" where
  "sql_limit n xs = (if n < 0 then xs else take (nat n) xs)"

definition getRecent :: "int option \<Rightarrow> database \<Rightarrow> StoredTranscription list" where
  "getRecent limit db =
     sql_limit (case limit of None \<Rightarrow> 50 | Some n \<Rightarrow> n) (order_by_created_at_desc (rows db))"



definition getById :: "nat \<Rightarrow> database \<Rightarrow> StoredTranscription option" where
  "getById i db = find (\<lambda>r. st_id r = i) (rows db)"

text \<open>\<open>delete\<close> and \<open>clear\<close>: the delete trigger runs for every row removed.\<close>

definition delete_db :: "nat \<Rightarrow> database \<Rightarrow> database" where
  "delete_db i db =
     db\<lparr>rows := filter (\<lambda>r. st_id r \<noteq> i) (rows db),
        fts := fold transcriptions_ad (filter (\<lambda>r. st_id r = i) (rows db)) (fts db)\<rparr>"

definition clear_db :: "database \<Rightarrow> database" where
  "clear_db db = db\<lparr>rows := [], fts := fold transcriptions_ad (rows db) (fts db)\<rparr>"

text \<open>The index holds exactly the text of every row, and no rowid occurs twice.\<close>

definition fts_in_sync :: "database \<Rightarrow> bool" where
  "fts_in_sync db =
     (fts db = map (\<lambda>r. (st_id r, st_text r)) (rows db) \<and> distinct (map st_id (rows db)))"

section \<open>Output: \<open>ClipboardManager\<close>\<close>

text \<open>The manager's one slot, and beside it the text on the system clipboard.\<close>

record ClipboardManager =
  previousContent :: string

definition new_ClipboardManager :: ClipboardManager where
  "new_ClipboardManager = \<lparr>previousContent = []\<rparr>"

definition copy :: "string \<Rightarrow> string \<times> ClipboardManager \<Rightarrow> string \<times> ClipboardManager" where
  "copy txt c = (case c of (clip, m) \<Rightarrow> (txt, m\<lparr>previousContent := clip\<rparr>))"



text \<open>
  \<open>paste\<close> sends the keystroke through a platform tool; \<open>failure\<close> is the error of that
  tool, if any. The clipboard itself is not changed.
\<close>

definition paste :: "thrown option \<Rightarrow> thrown + unit" where
  "paste failure = (case failure of Some e \<Rightarrow> Inl e | None \<Rightarrow> Inr ())"

definition copyAndPaste ::
  "thrown option \<Rightarrow> string \<Rightarrow> string \<times> ClipboardManager
     \<Rightarrow> (thrown + unit) \<times> string \<times> ClipboardManager" where
  "copyAndPaste failure txt c = (paste failure, copy txt c)"

section \<open>The IPC handlers\<close>

text \<open>The part of the stored configuration that the handlers read.\<close>

record AppConfig =
  transcription_language :: string
  openai_apiKey :: string
  openai_model :: OpenAIModel
  output_autoPaste :: bool
  output_autoCopy :: bool
  processing_customVocabulary :: "string list"

datatype RecordingState = Idle | Recording | Processing | Complete | ErrorState

text \<open>What the main process sends to the window.\<close>

datatype window_event =
    RecordingStateEv RecordingState
  | ErrorEv string
  | TranscriptionResultEv TranscriptionResult

text \<open>The reply of a handler: \<open>{success: true, ...}\<close> or \<open>{success: false, error}\<close>.\<close>

datatype 'a reply = Success 'a | Failure string

text \<open>The services the handlers share, the stored configuration and the window's inbox.\<close>

record app =
  audio :: audio_service
  transcription :: TranscriptionManager
  database :: database
  clipboard :: ClipboardManager
  systemClipboard :: string
  config :: AppConfig
  currentAudioBuffer :: "buffer option"
  sent :: "window_event list"

text \<open>
  What lies outside the program during one handler call: the buffer size limit of the
  platform, the remote API, the input device, whether the store rejects the insert,
  whether the paste tool fails, and the clock of the store.
\<close>

record world =
  w_kMaxLength :: nat
  w_remote :: api
  w_device :: device
  w_store :: "thrown option"
  w_paste :: "thrown option"
  w_now :: nat

text \<open>\<open>error instanceof Error ? error.message : fallback\<close>\<close>

definition error_message :: "thrown \<Rightarrow> string \<Rightarrow> string" where
  "error_message err fallback = (case err of Error m \<Rightarrow> m | NonError \<Rightarrow> fallback)"

definition audio_start :: "world \<Rightarrow> app \<Rightarrow> unit reply \<times> app" where
  "audio_start w s =
     (case startRecording (w_device w) (audio s) of
        (Inr u, a) \<Rightarrow>
          (Success (), s\<lparr>audio := a, sent := sent s @ [RecordingStateEv Recording]\<rparr>)
      | (Inl err, a) \<Rightarrow>
          let message = error_message err ''Failed to start recording''
          in (Failure message, s\<lparr>audio := a, sent := sent s @ [ErrorEv message]\<rparr>))"

text \<open>\<open>customVocabulary.join(', ')\<close>\<close>

fun join :: "string list \<Rightarrow> string" where
  "join [] = []"
| "join [x] = x"
| "join (x # y # ys) = x @ '', '' @ join (y # ys)"

text \<open>The block of \<open>audio:stop\<close> that configures the service from the stored key.\<close>

definition ensure_configured :: "app \<Rightarrow> (thrown + unit) \<times> app" where
  "ensure_configured s =
     (if \<not> isConfigured (transcription s) then
        if openai_apiKey (config s) \<noteq> [] then
          (Inr (), s\<lparr>transcription :=
                       configureOpenAI (openai_apiKey (config s)) (openai_model (config s))
                         (transcription s)\<rparr>)
        else (Inl (Error ''OpenAI API key not configured. Please add it in Settings.''), s)
      else (Inr (), s))"

text \<open>
  The options that \<open>audio:stop\<close> passes to \<open>transcribe\<close>: the vocabulary as prompt,
  and the configured language unless it is \<open>auto\<close>.
\<close>

definition transcribe_options :: "AppConfig \<Rightarrow> TranscriptionOptions" where
  "transcribe_options cfg =
     (let language = (if transcription_language cfg = ''auto'' then None
                      else Some (transcription_language cfg))
      in \<lparr>opt_language = language,
          opt_prompt = Some (join (processing_customVocabulary cfg)),
          opt_temperature = None, opt_wordTimestamps = None\<rparr>)"

text \<open>The block of \<open>audio:stop\<close> that copies and pastes the text.\<close>

definition handle_output :: "world \<Rightarrow> string \<Rightarrow> app \<Rightarrow> (thrown + unit) \<times> app" where
  "handle_output w txt s =
     (let c1 = (if output_autoCopy (config s) then copy txt (systemClipboard s, clipboard s)
                else (systemClipboard s, clipboard s))
      in
      if output_autoPaste (config s) then
        (case copyAndPaste (w_paste w) txt c1 of
           (r, c2) \<Rightarrow> (r, s\<lparr>systemClipboard := fst c2, clipboard := snd c2\<rparr>))
      else (Inr (), s\<lparr>systemClipboard := fst c1, clipboard := snd c1\<rparr>))"

text \<open>The \<open>try\<close> block of \<open>audio:stop\<close>; what it changed before a throw stays changed.\<close>

definition stop_try :: "world \<Rightarrow> app \<Rightarrow> (thrown + TranscriptionResult) \<times> app" where
  "stop_try w s =
     (case stopRecording (audio s) of
        (Inl err, a) \<Rightarrow> (Inl err, s\<lparr>audio := a\<rparr>)
      | (Inr buf, a) \<Rightarrow>
          (let s1 = s\<lparr>audio := a, currentAudioBuffer := Some buf,
                      sent := sent s @ [RecordingStateEv Processing]\<rparr>
           in
           (case ensure_configured s1 of
              (Inl err, s2) \<Rightarrow> (Inl err, s2)
            | (Inr u, s2) \<Rightarrow>
                (let options = transcribe_options (config s2)
                 in
                 (case manager_transcribe (w_kMaxLength w) (w_remote w) (transcription s2)
                         buf options of
                    Inl err \<Rightarrow> (Inl err, s2)
                  | Inr result \<Rightarrow>
                      (let serviceName = getServiceName (transcription s2) in
                       (case w_store w of
                          Some err \<Rightarrow> (Inl err, s2)
                        | None \<Rightarrow>
                            (let s3 = s2\<lparr>database :=
                                          snd (insert_db (w_now w) result serviceName
                                                 (database s2))\<rparr>
                             in
                             (case handle_output w (res_text result) s3 of
                                (Inl err, s4) \<Rightarrow> (Inl err, s4)
                              | (Inr u, s4) \<Rightarrow>
                                  (Inr result,
                                   s4\<lparr>sent := sent s4 @ [TranscriptionResultEv result,
                                                          RecordingStateEv Complete]\<rparr>))))))))))"

definition audio_stop :: "world \<Rightarrow> app \<Rightarrow> TranscriptionResult reply \<times> app" where
  "audio_stop w s =
     (case stop_try w s of
        (Inr result, s') \<Rightarrow> (Success result, s')
      | (Inl err, s') \<Rightarrow>
          let message = error_message err ''Transcription failed''
          in (Failure message,
              s'\<lparr>sent := sent s' @ [ErrorEv message, RecordingStateEv ErrorState]\<rparr>))"

text \<open>
  What the window sees of a failed \<open>audio:stop\<close>: the reply is the failure \<open>msg\<close>, and
  the handler has sent (after the state \<open>processing\<close>, if the capture was \<open>stopped\<close>)
  one error message, \<open>msg\<close>, and then the state \<open>error\<close>.
\<close>

definition failure_reported :: "world \<Rightarrow> app \<Rightarrow> bool \<Rightarrow> string \<Rightarrow> bool" where
  "failure_reported w s stopped msg =
     (fst (audio_stop w s) = Failure msg
      \<and> sent (snd (audio_stop w s))
          = sent s @ (if stopped then [RecordingStateEv Processing] else [])
              @ [ErrorEv msg, RecordingStateEv ErrorState])"

definition audio_cancel :: "app \<Rightarrow> unit reply \<times> app" where
  "audio_cancel s =
     (Success (), s\<lparr>audio := cancelRecording (audio s),
                     sent := sent s @ [RecordingStateEv Idle]\<rparr>)"

text \<open>\<open>history:get\<close>: \<open>database.getRecent(limit || 50)\<close>; an omitted limit and 0 are falsy.\<close>

definition history_get :: "int option \<Rightarrow> app \<Rightarrow> StoredTranscription list" where
  "history_get limit s =
     getRecent (Some (case limit of None \<Rightarrow> 50 | Some n \<Rightarrow> if n = 0 then 50 else n))
       (database s)"

definition history_delete :: "nat \<Rightarrow> app \<Rightarrow> unit reply \<times> app" where
  "history_delete i s = (Success (), s\<lparr>database := delete_db i (database s)\<rparr>)"

text \<open>The application after start-up: fresh services, nothing sent yet.\<close>

definition initial_app :: "AppConfig \<Rightarrow> string \<Rightarrow> app" where
  "initial_app cfg clip =
     \<lparr>audio = new_AudioService,
      transcription =
        (if openai_apiKey cfg \<noteq> []
         then configureOpenAI (openai_apiKey cfg) (openai_model cfg) new_TranscriptionManager
         else new_TranscriptionManager),
      database = new_TranscriptionDatabase, clipboard = new_ClipboardManager,
      systemClipboard = clip, config = cfg, currentAudioBuffer = None, sent = []\<rparr>"

section \<open>Example inputs\<close>

text \<open>
  Concrete inputs on which the results below are run: a configuration with a key and the
  default output settings, a remote API that answers, a platform where every step works,
  and a history of two entries.
\<close>

definition example_config :: AppConfig where
  "example_config =
     \<lparr>transcription_language = ''auto'', openai_apiKey = ''sk-test'', openai_model = whisper_1,
      output_autoPaste = True, output_autoCopy = True, processing_customVocabulary = []\<rparr>"

definition example_response :: api_response where
  "example_response =
     \<lparr>a_text = ''hello world'', a_language = Some ''en'', a_duration = Some (6 / 5),
      a_segments = None, a_words = None\<rparr>"

definition example_world :: world where
  "example_world =
     \<lparr>w_kMaxLength = 4294967296, w_remote = (\<lambda>p. Inr example_response), w_device = DeviceOk,
      w_store = None, w_paste = None, w_now = 1000\<rparr>"

definition example_result :: "string \<Rightarrow> rat \<Rightarrow> TranscriptionResult" where
  "example_result txt d =
     \<lparr>res_text = txt, res_language = ''en'', res_duration = d, res_segments = None,
      res_words = None\<rparr>"



definition example_history :: database where
  "example_history =
     snd (insert_db 2000 (example_result ''other words'' 800) ''cloud''
            (snd (insert_db 1000 (example_result ''hello world'' 1200) ''cloud''
                    new_TranscriptionDatabase)))"

text \<open>The application while it records: one \<open>audio:start\<close> after start-up.\<close>

definition example_recording :: app where
  "example_recording = snd (audio_start example_world (initial_app example_config []))"

text \<open>The same, started without a stored key.\<close>

definition example_unconfigured :: app where
  "example_unconfigured =
     snd (audio_start example_world (initial_app (example_config\<lparr>openai_apiKey := []\<rparr>) []))"

section \<open>Audio capture: what \<open>stopRecording\<close> returns\<close>

text \<open>
  \<open>stopRecording\<close> calls \<open>cleanup\<close>, which empties \<open>chunks\<close>, before it concatenates
  them: whatever was captured, the buffer returned is empty.
\<close>

lemma stopRecording_returns_empty:
  "isRecording a \<Longrightarrow> fst (stopRecording a) = Inr []"
  by (simp add: stopRecording_def cleanup_def Let_def)

text \<open>
  Claim C1 (no chunk lost): a session that received the chunks \<open>C1..Cn\<close> in order should
  give their concatenation at \<open>stopRecording\<close>, and three chunks of 320 samples should
  give 960 samples and 60 ms. The code at that input: device 1 selected, recording started,
  three chunks of 640 bytes received, so 1920 bytes are held; \<open>stopRecording\<close> returns the
  empty buffer and announces a duration of 0 ms.
\<close>

theorem stopRecording_scenario_A:
  "length (concat (chunks (capture [replicate 640 0, replicate 640 0, replicate 640 0]
                     (setDevice 1 new_AudioService)))) = 1920
   \<and> isRecording (capture [replicate 640 0, replicate 640 0, replicate 640 0]
                     (setDevice 1 new_AudioService))
   \<and> stopRecording (capture [replicate 640 0, replicate 640 0, replicate 640 0]
                     (setDevice 1 new_AudioService))
       = (Inr [],
          \<lparr>audioIO = False, chunks = [], isRecording = False, cfg_sampleRate = 16000,
           cfg_channels = 1, cfg_deviceId = Some 1, errorListener = False,
           emitted = [Started, Level (replicate 640 0), Level (replicate 640 0),
                      Level (replicate 640 0), Stopped [] (Some 0)],
           console = []\<rparr>)"
  by (simp add: capture_def startRecording_def on_data_def setDevice_def new_AudioService_def
      stopRecording_def cleanup_def duration_ms_def Let_def)

section \<open>Clipboard: copy and restore\<close>




section \<open>Transcription manager: unconfigured services\<close>

text \<open>
  Claim C8: \<open>setPrimaryService\<close> on a name with no registered instance throws an error
  saying that the service is not configured, and \<open>transcribe\<close> throws an error naming the
  primary service whenever that service is not configured; no result is produced.
\<close>

theorem unconfigured_service_errors:
  "(\<not> Map_has (services m) n \<longrightarrow>
      setPrimaryService n m = Inl (Error (''Service '' @ n @ '' not configured'')))
   \<and> (\<not> isConfigured m \<longrightarrow>
      manager_transcribe k r m audio_buf opts =
        Inl (Error (''Transcription service '' @ [CHR 0x27] @ primaryService m @ [CHR 0x27]
                    @ '' not configured'')))"
  by (simp add: setPrimaryService_def manager_transcribe_def isConfigured_def Map_has_def)

theorem unconfigured_service_errors_witness:
  "\<not> Map_has (services new_TranscriptionManager) ''cloud''
   \<and> setPrimaryService ''cloud'' new_TranscriptionManager
       = Inl (Error ''Service cloud not configured'')
   \<and> \<not> isConfigured new_TranscriptionManager
   \<and> manager_transcribe 4294967296 (\<lambda>p. Inl NonError) new_TranscriptionManager []
        \<lparr>opt_language = None, opt_prompt = None, opt_temperature = None,
         opt_wordTimestamps = None\<rparr>
       = Inl (Error (''Transcription service '' @ [CHR 0x27] @ ''openai'' @ [CHR 0x27]
                     @ '' not configured''))"
  using unconfigured_service_errors [of new_TranscriptionManager "''cloud''" 4294967296
      "\<lambda>p. Inl NonError" "[]"
      "\<lparr>opt_language = None, opt_prompt = None, opt_temperature = None,
        opt_wordTimestamps = None\<rparr>"]
  by (simp add: new_TranscriptionManager_def Map_has_def Map_get_def isConfigured_def)

section \<open>Audio capture: starting twice\<close>

text \<open>
  Claim C3, as stated: a start during an active session is rejected with an error. At the
  state reached by one successful \<open>audio:start\<close>, a second \<open>audio:start\<close> replies
  success.
\<close>

theorem start_while_recording_counterexample:
  "isRecording (audio (snd (audio_start example_world (initial_app example_config []))))
   \<and> fst (audio_start example_world
            (snd (audio_start example_world (initial_app example_config [])))) = Success ()"
  by (simp add: audio_start_def startRecording_def initial_app_def example_world_def
      new_AudioService_def Let_def)

text \<open>
  Claim C3, amended: a start during an active session is ignored, not rejected: no error is
  raised, the handler replies success and announces the state \<open>recording\<close> again, the only
  trace is a console warning, and the session stays as it was (still recording, the chunks
  and the emitted events unchanged).
\<close>

theorem start_while_recording:
  "isRecording (audio s) \<Longrightarrow>
     audio_start w s =
       (Success (),
        s\<lparr>audio := (audio s)\<lparr>console := console (audio s) @ [''Already recording'']\<rparr>,
          sent := sent s @ [RecordingStateEv Recording]\<rparr>)
     \<and> isRecording (audio (snd (audio_start w s)))
     \<and> chunks (audio (snd (audio_start w s))) = chunks (audio s)
     \<and> emitted (audio (snd (audio_start w s))) = emitted (audio s)"
  by (simp add: audio_start_def startRecording_def)

theorem start_while_recording_witness:
  "isRecording (audio (snd (audio_start example_world (initial_app example_config []))))
   \<and> audio_start example_world (snd (audio_start example_world (initial_app example_config [])))
      = (Success (),
         (initial_app example_config [])
           \<lparr>audio := new_AudioService\<lparr>isRecording := True, audioIO := True, emitted := [Started],
                                      console := [''Already recording'']\<rparr>,
            sent := [RecordingStateEv Recording, RecordingStateEv Recording]\<rparr>)"
proof -
  have h: "isRecording (audio (snd (audio_start example_world (initial_app example_config []))))"
    by (simp add: audio_start_def startRecording_def initial_app_def example_world_def
        new_AudioService_def Let_def)
  show ?thesis
    using h start_while_recording [OF h, of example_world]
    by (simp add: audio_start_def startRecording_def initial_app_def example_world_def
        new_AudioService_def Let_def)
qed

section \<open>Transcription manager: configuring twice\<close>

lemma Map_keys_Map_set:
  "Map_keys (Map_set k v m) = (if k \<in> set (Map_keys m) then Map_keys m else Map_keys m @ [k])"
  by (induction m) (auto simp: Map_keys_def)

lemma Map_get_Map_set_same: "Map_get (Map_set k v m) k = Some v"
  by (induction m) (auto simp: Map_get_def)

lemma Map_set_Map_set: "Map_set k v (Map_set k v' m) = Map_set k v m"
  by (induction m) auto

lemma Map_get_keys: "Map_get m k \<noteq> None \<longleftrightarrow> k \<in> set (Map_keys m)"
  by (simp add: Map_get_def Map_keys_def map_of_eq_None_iff)

lemma count_list_distinct: "distinct xs \<Longrightarrow> k \<in> set xs \<Longrightarrow> count_list xs k = 1"
  by (induction xs) auto

lemma keys_configureOpenAI:
  "getAvailableServices (configureOpenAI apiKey model m) =
     (if ''openai'' \<in> set (getAvailableServices m) then getAvailableServices m
      else getAvailableServices m @ [''openai''])"
  using Map_get_keys [of "services m" "''openai''"]
  by (auto simp: configureOpenAI_def getAvailableServices_def Map_keys_Map_set
      split: option.splits)

lemma distinct_configureOpenAI:
  "distinct (getAvailableServices m) \<Longrightarrow>
   distinct (getAvailableServices (configureOpenAI apiKey model m))"
  by (simp add: keys_configureOpenAI)

lemma openai_in_configureOpenAI:
  "''openai'' \<in> set (getAvailableServices (configureOpenAI apiKey model m))"
  by (simp add: keys_configureOpenAI)

lemma keys_fold_configureOpenAI:
  "''openai'' \<in> set (getAvailableServices m) \<Longrightarrow>
   getAvailableServices (fold (\<lambda>c. configureOpenAI (fst c) (snd c)) cs m) = getAvailableServices m"
  by (induction cs arbitrary: m) (simp_all add: keys_configureOpenAI)

lemma configureOpenAI_idem:
  "configureOpenAI apiKey model (configureOpenAI apiKey model m) = configureOpenAI apiKey model m"
  by (simp add: configureOpenAI_def Map_get_Map_set_same Map_set_Map_set setModel_def setApiKey_def
      new_OpenAITranscriptionService_def split: option.splits)

lemma Map_get_Map_set_other: "k' \<noteq> k \<Longrightarrow> Map_get (Map_set k v m) k' = Map_get m k'"
  by (induction m) (auto simp: Map_get_def)

lemma value_configureOpenAI:
  "Map_get (services (configureOpenAI apiKey model m)) ''openai'' =
     Some (case Map_get (services m) ''openai'' of
             Some existing \<Rightarrow> existing\<lparr>svc_apiKey := apiKey, svc_model := model\<rparr>
           | None \<Rightarrow> \<lparr>svc_name = ''OpenAI Whisper'', svc_apiKey = apiKey, svc_model = model\<rparr>)"
  by (simp add: configureOpenAI_def Map_get_Map_set_same setModel_def setApiKey_def
      new_OpenAITranscriptionService_def split: option.splits)

lemma others_configureOpenAI:
  "k \<noteq> ''openai'' \<Longrightarrow>
   Map_get (services (configureOpenAI apiKey model m)) k = Map_get (services m) k"
  by (simp add: configureOpenAI_def Map_get_Map_set_other split: option.splits)

lemma primary_configureOpenAI:
  "primaryService (configureOpenAI apiKey model m) = primaryService m"
  by (simp add: configureOpenAI_def split: option.splits)

lemma key_model_configureOpenAI:
  "map_option (\<lambda>v. (svc_apiKey v, svc_model v))
     (Map_get (services (configureOpenAI apiKey model m)) ''openai'') = Some (apiKey, model)"
  by (simp add: value_configureOpenAI split: option.splits)

lemma name_configureOpenAI:
  "map_option svc_name (Map_get (services (configureOpenAI apiKey model m)) ''openai'') =
     Some (case Map_get (services m) ''openai'' of Some existing \<Rightarrow> svc_name existing
           | None \<Rightarrow> ''OpenAI Whisper'')"
  by (simp add: value_configureOpenAI split: option.splits)

lemma key_model_fold_configureOpenAI:
  "map_option (\<lambda>v. (svc_apiKey v, svc_model v))
     (Map_get (services (fold (\<lambda>c. configureOpenAI (fst c) (snd c)) cs
                           (configureOpenAI apiKey model m))) ''openai'')
     = Some (last ((apiKey, model) # cs))"
proof (induction cs arbitrary: apiKey model m)
  case Nil
  show ?case by (simp add: key_model_configureOpenAI)
next
  case (Cons c cs)
  show ?case
    using Cons.IH [of "fst c" "snd c" "configureOpenAI apiKey model m"] by simp
qed

lemma others_fold_configureOpenAI:
  "k \<noteq> ''openai'' \<Longrightarrow>
   Map_get (services (fold (\<lambda>c. configureOpenAI (fst c) (snd c)) cs m)) k = Map_get (services m) k"
  by (induction cs arbitrary: m) (simp_all add: others_configureOpenAI)

text \<open>
  Claim C7: \<open>configureOpenAI\<close> is an idempotent upsert. Starting from any manager (its
  map holds each key once), after a configuration and any further sequence \<open>cs\<close> of
  reconfigurations the available services contain \<open>openai\<close> exactly once; configuring a
  registered service leaves the list of services as it is; configuring twice with the same
  arguments is the same as configuring once; the instance stored under \<open>openai\<close> is the
  existing one with the new key and model (a new one if there was none), so after the
  sequence it carries the key and model configured last; every other service and the
  primary service stay as they were.
\<close>

theorem configureOpenAI_upsert:
  "distinct (getAvailableServices m) \<Longrightarrow>
   count_list (getAvailableServices
                 (fold (\<lambda>c. configureOpenAI (fst c) (snd c)) cs (configureOpenAI apiKey model m)))
        ''openai'' = 1
   \<and> (Map_has (services m) ''openai'' \<longrightarrow>
        getAvailableServices (configureOpenAI apiKey model m) = getAvailableServices m)
   \<and> configureOpenAI apiKey model (configureOpenAI apiKey model m) = configureOpenAI apiKey model m
   \<and> Map_get (services (configureOpenAI apiKey model m)) ''openai'' =
        Some (case Map_get (services m) ''openai'' of
                Some existing \<Rightarrow> existing\<lparr>svc_apiKey := apiKey, svc_model := model\<rparr>
              | None \<Rightarrow> \<lparr>svc_name = ''OpenAI Whisper'', svc_apiKey = apiKey,
                         svc_model = model\<rparr>)
   \<and> map_option (\<lambda>v. (svc_apiKey v, svc_model v))
        (Map_get (services (fold (\<lambda>c. configureOpenAI (fst c) (snd c)) cs
                              (configureOpenAI apiKey model m))) ''openai'')
        = Some (last ((apiKey, model) # cs))
   \<and> (\<forall>k. k \<noteq> ''openai'' \<longrightarrow>
          Map_get (services (fold (\<lambda>c. configureOpenAI (fst c) (snd c)) cs
                                (configureOpenAI apiKey model m))) k
            = Map_get (services m) k)
   \<and> primaryService (configureOpenAI apiKey model m) = primaryService m"
proof (intro conjI impI allI)
  assume d: "distinct (getAvailableServices m)"
  let ?m1 = "configureOpenAI apiKey model m"
  have "getAvailableServices (fold (\<lambda>c. configureOpenAI (fst c) (snd c)) cs ?m1)
          = getAvailableServices ?m1"
    by (rule keys_fold_configureOpenAI) (rule openai_in_configureOpenAI)
  then show "count_list (getAvailableServices
                 (fold (\<lambda>c. configureOpenAI (fst c) (snd c)) cs ?m1)) ''openai'' = 1"
    using count_list_distinct [OF distinct_configureOpenAI [OF d] openai_in_configureOpenAI]
    by simp
next
  assume "Map_has (services m) ''openai''"
  then have "''openai'' \<in> set (getAvailableServices m)"
    using Map_get_keys [of "services m" "''openai''"]
    by (simp add: Map_has_def getAvailableServices_def)
  then show "getAvailableServices (configureOpenAI apiKey model m) = getAvailableServices m"
    by (simp add: keys_configureOpenAI)
next
  show "configureOpenAI apiKey model (configureOpenAI apiKey model m)
          = configureOpenAI apiKey model m"
    by (rule configureOpenAI_idem)
next
  show "Map_get (services (configureOpenAI apiKey model m)) ''openai'' =
        Some (case Map_get (services m) ''openai'' of
                Some existing \<Rightarrow> existing\<lparr>svc_apiKey := apiKey, svc_model := model\<rparr>
              | None \<Rightarrow> \<lparr>svc_name = ''OpenAI Whisper'', svc_apiKey = apiKey,
                         svc_model = model\<rparr>)"
    by (rule value_configureOpenAI)
next
  show "map_option (\<lambda>v. (svc_apiKey v, svc_model v))
        (Map_get (services (fold (\<lambda>c. configureOpenAI (fst c) (snd c)) cs
                              (configureOpenAI apiKey model m))) ''openai'')
        = Some (last ((apiKey, model) # cs))"
    by (rule key_model_fold_configureOpenAI)
next
  fix k :: string
  assume "k \<noteq> ''openai''"
  then show "Map_get (services (fold (\<lambda>c. configureOpenAI (fst c) (snd c)) cs
                                (configureOpenAI apiKey model m))) k
            = Map_get (services m) k"
    by (simp add: others_fold_configureOpenAI others_configureOpenAI)
next
  show "primaryService (configureOpenAI apiKey model m) = primaryService m"
    by (rule primary_configureOpenAI)
qed

theorem configureOpenAI_upsert_witness:
  "distinct (getAvailableServices new_TranscriptionManager)
   \<and> getAvailableServices
         (fold (\<lambda>c. configureOpenAI (fst c) (snd c))
            [(''k2'', gpt_4o_transcribe), (''k3'', whisper_1)]
            (configureOpenAI ''k1'' whisper_1 new_TranscriptionManager)) = [''openai'']
   \<and> Map_get (services
         (fold (\<lambda>c. configureOpenAI (fst c) (snd c))
            [(''k2'', gpt_4o_transcribe), (''k3'', whisper_1)]
            (configureOpenAI ''k1'' whisper_1 new_TranscriptionManager))) ''openai''
       = Some \<lparr>svc_name = ''OpenAI Whisper'', svc_apiKey = ''k3'', svc_model = whisper_1\<rparr>
   \<and> distinct (getAvailableServices (configureOpenAI ''k1'' whisper_1 new_TranscriptionManager))
   \<and> Map_has (services (configureOpenAI ''k1'' whisper_1 new_TranscriptionManager)) ''openai''
   \<and> services (configureOpenAI ''k2'' gpt_4o_transcribe
                 (configureOpenAI ''k1'' whisper_1 new_TranscriptionManager))
       = [(''openai'', \<lparr>svc_name = ''OpenAI Whisper'', svc_apiKey = ''k2'',
                        svc_model = gpt_4o_transcribe\<rparr>)]
   \<and> ''cloud'' \<noteq> ''openai''
   \<and> Map_get (services (configureOpenAI ''k1'' whisper_1 new_TranscriptionManager)) ''cloud''
       = None"
  using configureOpenAI_upsert [of new_TranscriptionManager
      "[(''k2'', gpt_4o_transcribe), (''k3'', whisper_1)]" "''k1''" whisper_1]
    configureOpenAI_upsert [of "configureOpenAI ''k1'' whisper_1 new_TranscriptionManager"
      "[]" "''k2''" gpt_4o_transcribe]
  by (simp add: new_TranscriptionManager_def getAvailableServices_def Map_keys_def
      configureOpenAI_def Map_get_def Map_has_def setModel_def setApiKey_def
      new_OpenAITranscriptionService_def)

section \<open>History: rowids, rounding and the index\<close>

lemma fold_max_ge: "r \<in> set rs \<Longrightarrow> st_id r \<le> fold max (map st_id rs) s0"
proof (induction rs arbitrary: s0)
  case Nil
  then show ?case by simp
next
  case (Cons a rs)
  have mono: "\<And>xs (a::nat) b. a \<le> b \<Longrightarrow> a \<le> fold max xs b"
  proof -
    fix xs :: "nat list" and a b :: nat
    show "a \<le> b \<Longrightarrow> a \<le> fold max xs b"
      by (induction xs arbitrary: b) (auto simp: max_def)
  qed
  from Cons show ?case by (auto intro: mono)
qed

lemma new_rowid_fresh:
  "\<forall>x \<in> set (rows db). st_id x \<noteq> Suc (fold max (map st_id (rows db)) (seq db))"
  using fold_max_ge [of _ "rows db" "seq db"] by fastforce

lemma find_append_new:
  "\<forall>r \<in> set rs. \<not> P r \<Longrightarrow> P x \<Longrightarrow> find P (rs @ [x]) = Some x"
  by (induction rs) auto

lemma Math_round_of_int: "Math_round (of_int n) = n"
  unfolding Math_round_def by (rule floor_unique) simp_all

lemma example_history_eq:
  "example_history =
     \<lparr>rows = [\<lparr>st_id = 1, st_text = ''hello world'', st_language = ''en'', st_duration = 1200,
               st_service = ''cloud'', st_createdAt = 1000\<rparr>,
              \<lparr>st_id = 2, st_text = ''other words'', st_language = ''en'', st_duration = 800,
               st_service = ''cloud'', st_createdAt = 2000\<rparr>],
      fts = [(1, ''hello world''), (2, ''other words'')], seq = 2\<rparr>"
  by (simp add: example_history_def insert_db_def new_TranscriptionDatabase_def example_result_def
      Let_def transcriptions_ai_def Math_round_of_int [of 1200, simplified]
      Math_round_of_int [of 800, simplified])

text \<open>
  Claim C10: the entry found by \<open>getById\<close> under the id that \<open>insert\<close> returned carries
  the result's text and language, the service name, and as duration the result's duration
  rounded by \<open>Math.round\<close> to an integer (the nearest one, a half going up).
\<close>

theorem insert_db_rounds_duration:
  "getById (fst (insert_db now r svc db)) (snd (insert_db now r svc db)) =
     Some \<lparr>st_id = fst (insert_db now r svc db), st_text = res_text r,
           st_language = res_language r, st_duration = Math_round (res_duration r),
           st_service = svc, st_createdAt = now\<rparr>
   \<and> Math_round (res_duration r) = \<lfloor>res_duration r + 1 / 2\<rfloor>"
  using new_rowid_fresh [of db]
  by (simp add: insert_db_def getById_def Let_def find_append_new Math_round_def)

lemma Math_round_examples:
  "Math_round (2401 / 2) = 1201" "Math_round (12004 / 10) = 1200" "Math_round (- 1 / 2) = 0"
  "Math_round (- 3 / 2) = - 1"
  by code_simp+

theorem insert_db_rounds_duration_witness:
  "map_option st_duration
     (getById (fst (insert_db 3000 (example_result ''third'' (2401 / 2)) ''cloud'' example_history))
        (snd (insert_db 3000 (example_result ''third'' (2401 / 2)) ''cloud'' example_history)))
     = Some 1201
   \<and> fst (insert_db 3000 (example_result ''third'' (2401 / 2)) ''cloud'' example_history) = 3"
  using insert_db_rounds_duration [of 3000 "example_result ''third'' (2401 / 2)" "''cloud''"
      example_history]
  by (simp add: example_result_def Math_round_examples insert_db_def example_history_eq Let_def
      numeral_3_eq_3)



lemma clear_trigger_sync:
  "fold transcriptions_ad rs (map (\<lambda>r. (st_id r, st_text r)) rs @ ys) = ys"
  by (induction rs) (simp_all add: transcriptions_ad_def)

text \<open>The index is in step with the table in a new store and after every operation.\<close>

lemma fts_in_sync_new: "fts_in_sync new_TranscriptionDatabase"
  by (simp add: fts_in_sync_def new_TranscriptionDatabase_def)

lemma fts_in_sync_insert: "fts_in_sync db \<Longrightarrow> fts_in_sync (snd (insert_db now r svc db))"
  using new_rowid_fresh [of db]
  by (auto simp: fts_in_sync_def insert_db_def Let_def transcriptions_ai_def)


lemma fts_in_sync_clear: "fts_in_sync db \<Longrightarrow> fts_in_sync (clear_db db)"
  using clear_trigger_sync [of "rows db" "[]"]
  by (simp add: fts_in_sync_def clear_db_def)




section \<open>History: the limit of \<open>history:get\<close>\<close>

lemma order_by_created_at_desc_sorted:
  "sorted_wrt (\<lambda>x y. st_createdAt y \<le> st_createdAt x) (order_by_created_at_desc rs)"
  unfolding order_by_created_at_desc_def
  using sorted_sort_key [of "\<lambda>r. - int (st_createdAt r)" rs]
  by (simp add: sorted_map)

text \<open>Rows of one creation time keep their rowid order.\<close>

lemma order_by_created_at_desc_stable:
  "filter (\<lambda>r. st_createdAt r = t) (order_by_created_at_desc rs)
     = filter (\<lambda>r. st_createdAt r = t) rs"
  using sort_key_stable [of "\<lambda>r. - int (st_createdAt r)" "- int t" rs]
  by (simp add: order_by_created_at_desc_def)

text \<open>
  Claim C9: \<open>history:get\<close> with limit 0, like the call without a limit, is
  \<open>getRecent(50)\<close>: it returns the 50 newest entries, or all of them if there are fewer
  (so not zero entries unless the history is empty), newest first.
\<close>

theorem history_get_zero_limit:
  "history_get (Some 0) s = getRecent (Some 50) (database s)
   \<and> history_get None s = getRecent (Some 50) (database s)
   \<and> length (history_get (Some 0) s) = min 50 (length (rows (database s)))
   \<and> set (history_get (Some 0) s) \<subseteq> set (rows (database s))
   \<and> sorted_wrt (\<lambda>x y. st_createdAt y \<le> st_createdAt x) (history_get (Some 0) s)"
  using order_by_created_at_desc_sorted [of "rows (database s)"]
  by (auto simp: history_get_def getRecent_def sql_limit_def order_by_created_at_desc_def
      dest: in_set_takeD)

theorem history_get_zero_limit_witness:
  "map st_id (history_get (Some 0) ((initial_app example_config [])\<lparr>database := example_history\<rparr>))
     = [2, 1]
   \<and> getRecent (Some 0) example_history = []"
  using history_get_zero_limit [of "(initial_app example_config [])\<lparr>database := example_history\<rparr>"]
  by (simp add: history_get_def getRecent_def sql_limit_def order_by_created_at_desc_def
      example_history_eq)

section \<open>WAV container: the header\<close>

lemma writeUInt32LE_of_nat:
  "n \<le> 4294967295 \<Longrightarrow>
   writeUInt32LE (of_nat n) =
     Inr [of_nat n, of_nat (n div 256), of_nat (n div 65536), of_nat (n div 16777216)]"
proof -
  assume a: "n \<le> 4294967295"
  then have "(of_nat n :: rat) \<le> of_nat 4294967295" by (simp only: of_nat_le_iff)
  then have "\<not> (of_nat n :: rat) > 4294967295" by simp
  then show ?thesis by (simp add: writeUInt32LE_def Let_def)
qed

lemma writeUInt32LE_too_large:
  "4294967295 < n \<Longrightarrow> writeUInt32LE (of_nat n) = Inl range_error"
proof -
  assume a: "4294967295 < n"
  then have "(of_nat 4294967295 :: rat) < of_nat n" by (simp only: of_nat_less_iff)
  then show ?thesis by (simp add: writeUInt32LE_def)
qed

lemma readUInt32LE_bytes:
  assumes "n < 4294967296"
  shows "unat (of_nat n :: byte) + 256 * unat (of_nat (n div 256) :: byte)
         + 65536 * unat (of_nat (n div 65536) :: byte)
         + 16777216 * unat (of_nat (n div 16777216) :: byte) = n"
proof -
  have u: "\<And>k. unat (of_nat k :: byte) = k mod 256"
    by (simp add: unat_of_nat)
  have "n div 16777216 < 256"
    using assms by simp
  then have top: "(n div 16777216) mod 256 = n div 16777216"
    by simp
  have d2: "n div 65536 = (n div 256) div 256"
    by (simp add: div_mult2_eq)
  have d3: "n div 16777216 = ((n div 256) div 256) div 256"
    by (simp add: div_mult2_eq)
  define a where "a = n div 256"
  define b where "b = a div 256"
  define c where "c = b div 256"
  have 1: "n = n mod 256 + 256 * a"
    unfolding a_def by simp
  have 2: "a = a mod 256 + 256 * b"
    unfolding b_def by simp
  have 3: "b = b mod 256 + 256 * c"
    unfolding c_def by simp
  have "n mod 256 + 256 * (a mod 256) + 65536 * (b mod 256) + 16777216 * c = n"
    using 1 2 3 by linarith
  then show ?thesis
    unfolding u top
    unfolding d2 d3
    by (simp add: a_def b_def c_def)
qed

lemma header_fields_16k:
  "writeUInt32LE 16 = Inr [16, 0, 0, 0]"
  "writeUInt16LE 1 = Inr [1, 0]"
  "writeUInt32LE 16000 = Inr [128, 62, 0, 0]"
  "writeUInt32LE 32000 = Inr [0, 125, 0, 0]"
  "writeUInt16LE 2 = Inr [2, 0]"
  "writeUInt16LE 16 = Inr [16, 0]"
  by (simp_all add: writeUInt32LE_def writeUInt16LE_def Let_def)

lemma encodeWav_16k:
  assumes "44 + length buf \<le> kMaxLength" and "length buf + 36 < 4294967296"
  shows "encodeWav kMaxLength buf 16000 1 16 =
     Inr (ascii ''RIFF''
          @ [of_nat (length buf + 36), of_nat ((length buf + 36) div 256),
             of_nat ((length buf + 36) div 65536), of_nat ((length buf + 36) div 16777216)]
          @ ascii ''WAVE'' @ ascii ''fmt '' @ [16, 0, 0, 0] @ [1, 0] @ [1, 0] @ [128, 62, 0, 0]
          @ [0, 125, 0, 0] @ [2, 0] @ [16, 0] @ ascii ''data''
          @ [of_nat (length buf), of_nat (length buf div 256),
             of_nat (length buf div 65536), of_nat (length buf div 16777216)]
          @ buf)"
proof -
  have e: "(of_nat (44 + length buf) :: rat) - 8 = of_nat (length buf + 36)" by simp
  have r: "writeUInt32LE (of_nat (44 + length buf) - 8) =
      Inr [of_nat (length buf + 36), of_nat ((length buf + 36) div 256),
           of_nat ((length buf + 36) div 65536), of_nat ((length buf + 36) div 16777216)]"
    unfolding e using assms(2) by (intro writeUInt32LE_of_nat) simp
  have d: "writeUInt32LE (of_nat (length buf)) =
      Inr [of_nat (length buf), of_nat (length buf div 256),
           of_nat (length buf div 65536), of_nat (length buf div 16777216)]"
    using assms(2) by (intro writeUInt32LE_of_nat) simp
  show ?thesis
    unfolding encodeWav_def Let_def
    using assms(1)
    by (simp add: r d and_then_def header_fields_16k del: of_nat_add)
qed

lemma encodeWav_too_large:
  assumes "4294967295 < length buf + 36"
  shows "encodeWav kMaxLength buf sampleRate channels bitsPerSample = Inl range_error"
proof -
  have e: "(of_nat (44 + length buf) :: rat) - 8 = of_nat (length buf + 36)" by simp
  have "writeUInt32LE (of_nat (44 + length buf) - 8) = Inl range_error"
    unfolding e by (rule writeUInt32LE_too_large [OF assms])
  then show ?thesis
    by (simp add: encodeWav_def Let_def and_then_def del: of_nat_add)
qed

text \<open>
  Claim C4, as stated, for every input buffer: the size fields of the header are 32 bits
  wide, so for a buffer of \<open>2^32 - 36\<close> bytes the first size field (the total length
  less 8) is out of range and the encoder throws instead of returning a container.
\<close>

theorem encodeWav_large_buffer_counterexample:
  "encodeWav 9007199254740991 (replicate 4294967260 0) 16000 1 16 = Inl range_error"
  by (rule encodeWav_too_large) (simp only: length_replicate)

text \<open>
  Claim C4, amended: \<open>encodeWav\<close> depends on nothing but its arguments (it is a function
  here, so two calls on one buffer agree), and for every buffer of fewer than
  \<open>2^32 - 36\<close> bytes whose container of \<open>44 + len\<close> bytes the platform can allocate,
  \<open>encodeWav(buf, 16000, 1, 16)\<close> returns a header of exactly 44 bytes, which starts with
  \<open>RIFF\<close> and whose size fields read \<open>len + 36\<close> and \<open>len\<close>, followed by the input
  bytes unchanged.
\<close>

theorem encodeWav_container:
  assumes "44 + length buf \<le> kMaxLength" and "length buf + 36 < 4294967296"
  shows "\<exists>header. encodeWav kMaxLength buf 16000 1 16 = Inr (header @ buf)
           \<and> length header = 44
           \<and> take 4 header = ascii ''RIFF''
           \<and> readUInt32LE header 4 = length buf + 36
           \<and> readUInt32LE header 40 = length buf"
proof -
  let ?h = "ascii ''RIFF''
          @ [of_nat (length buf + 36), of_nat ((length buf + 36) div 256),
             of_nat ((length buf + 36) div 65536), of_nat ((length buf + 36) div 16777216)]
          @ ascii ''WAVE'' @ ascii ''fmt '' @ [16, 0, 0, 0] @ [1, 0] @ [1, 0] @ [128, 62, 0, 0]
          @ [0, 125, 0, 0] @ [2, 0] @ [16, 0] @ ascii ''data''
          @ [of_nat (length buf), of_nat (length buf div 256),
             of_nat (length buf div 65536), of_nat (length buf div 16777216)]"
  have 1: "encodeWav kMaxLength buf 16000 1 16 = Inr (?h @ buf)"
    using encodeWav_16k [OF assms] by simp
  have 2: "length ?h = 44" by (simp add: ascii_def)
  have 3: "take 4 ?h = ascii ''RIFF''" by (simp add: ascii_def)
  have 4: "readUInt32LE ?h 4 = length buf + 36"
    using readUInt32LE_bytes [of "length buf + 36"] assms(2)
    by (simp add: readUInt32LE_def ascii_def del: of_nat_add)
  have 5: "readUInt32LE ?h 40 = length buf"
    using readUInt32LE_bytes [of "length buf"] assms(2)
    by (simp add: readUInt32LE_def ascii_def)
  from 1 2 3 4 5 show ?thesis by blast
qed

theorem encodeWav_container_witness:
  "44 + length [1, 2, 3, 4 :: byte] \<le> 4294967296
   \<and> length [1, 2, 3, 4 :: byte] + 36 < 4294967296
   \<and> encodeWav 4294967296 [1, 2, 3, 4] 16000 1 16 =
       Inr [82, 73, 70, 70, 40, 0, 0, 0, 87, 65, 86, 69, 102, 109, 116, 32, 16, 0, 0, 0,
            1, 0, 1, 0, 128, 62, 0, 0, 0, 125, 0, 0, 2, 0, 16, 0, 100, 97, 116, 97,
            4, 0, 0, 0, 1, 2, 3, 4]"
proof -
  have a: "44 + length [1, 2, 3, 4 :: byte] \<le> 4294967296" by simp
  have b: "length [1, 2, 3, 4 :: byte] + 36 < 4294967296" by simp
  show ?thesis
    using encodeWav_container [OF a b]
    by (simp add: encodeWav_def Let_def and_then_def writeUInt32LE_def writeUInt16LE_def ascii_def)
qed

section \<open>The stop handler: failures\<close>

lemma ensure_configured_keeps:
  "ensure_configured s = (r, s2) \<Longrightarrow>
     sent s2 = sent s \<and> database s2 = database s \<and> config s2 = config s"
  by (auto simp: ensure_configured_def split: if_splits)

lemma handle_output_keeps:
  "handle_output w txt s = (r, s4) \<Longrightarrow>
     sent s4 = sent s \<and> database s4 = database s
     \<and> (\<forall>err. r = Inl err \<longrightarrow> output_autoPaste (config s) \<and> w_paste w = Some err)"
  by (auto simp: handle_output_def copyAndPaste_def paste_def Let_def
      split: if_splits option.splits)

lemma stop_try_failure:
  assumes "stop_try w s = (Inl err, s')"
  shows "(sent s' = sent s \<or> sent s' = sent s @ [RecordingStateEv Processing])
     \<and> (database s' = database s
        \<or> (output_autoPaste (config s) \<and> w_paste w = Some err
           \<and> (\<exists>r svc. database s' = snd (insert_db (w_now w) r svc (database s)))))"
proof (cases "stopRecording (audio s)")
  case (Pair r0 a)
  show ?thesis
  proof (cases r0)
    case (Inl e0)
    with Pair assms have "s' = s\<lparr>audio := a\<rparr>" by (simp add: stop_try_def)
    then show ?thesis by simp
  next
    case (Inr buf)
    define s1 where "s1 = s\<lparr>audio := a, currentAudioBuffer := Some buf,
                      sent := sent s @ [RecordingStateEv Processing]\<rparr>"
    obtain r1 s2 where ec: "ensure_configured s1 = (r1, s2)" by (cases "ensure_configured s1")
    from ensure_configured_keeps [OF ec]
    have k2: "sent s2 = sent s @ [RecordingStateEv Processing]" "database s2 = database s"
      "config s2 = config s"
      by (simp_all add: s1_def)
    show ?thesis
    proof (cases r1)
      case (Inl e1)
      with Pair Inr ec assms have "s' = s2" by (simp add: stop_try_def s1_def)
      with k2 show ?thesis by simp
    next
      case u: (Inr u)
      define options where "options = transcribe_options (config s2)"
      show ?thesis
      proof (cases "manager_transcribe (w_kMaxLength w) (w_remote w) (transcription s2) buf options")
        case (Inl e2)
        with Pair Inr ec u assms have "s' = s2"
          by (simp add: stop_try_def s1_def options_def Let_def)
        with k2 show ?thesis by simp
      next
        case res: (Inr result)
        show ?thesis
        proof (cases "w_store w")
          case (Some e3)
          with Pair Inr ec u res assms have "s' = s2"
            by (simp add: stop_try_def s1_def options_def Let_def)
          with k2 show ?thesis by simp
        next
          case None
          define s3 where "s3 = s2\<lparr>database :=
               snd (insert_db (w_now w) result (getServiceName (transcription s2)) (database s2))\<rparr>"
          obtain r4 s4 where ho: "handle_output w (res_text result) s3 = (r4, s4)"
            by (cases "handle_output w (res_text result) s3")
          from Pair Inr ec u res None ho assms have r4: "r4 = Inl err" "s' = s4"
            by (auto simp: stop_try_def s1_def options_def s3_def Let_def split: sum.splits)
          from handle_output_keeps [OF ho] r4 k2
          have "sent s' = sent s @ [RecordingStateEv Processing]"
            "database s' = snd (insert_db (w_now w) result (getServiceName (transcription s2)) (database s))"
            "output_autoPaste (config s)" "w_paste w = Some err"
            by (simp_all add: s3_def)
          then show ?thesis by blast
        qed
      qed
    qed
  qed
qed

lemma audio_stop_failure_effects:
  assumes "fst (audio_stop w s) = Failure msg"
  shows "(sent (snd (audio_stop w s)) = sent s @ [ErrorEv msg, RecordingStateEv ErrorState]
          \<or> sent (snd (audio_stop w s))
               = sent s @ [RecordingStateEv Processing, ErrorEv msg, RecordingStateEv ErrorState])
     \<and> (database (snd (audio_stop w s)) = database s
        \<or> (output_autoPaste (config s)
           \<and> (\<exists>err. w_paste w = Some err \<and> msg = error_message err ''Transcription failed'')
           \<and> (\<exists>r svc. database (snd (audio_stop w s))
                          = snd (insert_db (w_now w) r svc (database s)))))"
proof (cases "stop_try w s")
  case (Pair r s1)
  show ?thesis
  proof (cases r)
    case (Inl err)
    with Pair have st: "stop_try w s = (Inl err, s1)" by simp
    have m: "msg = error_message err ''Transcription failed''"
      using assms st by (simp add: audio_stop_def Let_def)
    have s': "snd (audio_stop w s) = s1\<lparr>sent := sent s1 @ [ErrorEv msg, RecordingStateEv ErrorState]\<rparr>"
      using st m by (simp add: audio_stop_def Let_def)
    from stop_try_failure [OF st] show ?thesis
      unfolding s' using m by auto
  next
    case (Inr res)
    with Pair assms show ?thesis by (simp add: audio_stop_def)
  qed
qed

lemma ensure_configured_frame:
  "ensure_configured (s\<lparr>audio := a, currentAudioBuffer := b, sent := x\<rparr>) =
     (fst (ensure_configured s),
      (snd (ensure_configured s))\<lparr>audio := a, currentAudioBuffer := b, sent := x\<rparr>)"
  by (simp add: ensure_configured_def)

lemma ensure_configured_config: "config (snd (ensure_configured s)) = config s"
  by (simp add: ensure_configured_def)

lemma ensure_configured_database: "database (snd (ensure_configured s)) = database s"
  by (simp add: ensure_configured_def)

lemma stop_try_not_recording:
  "\<not> isRecording (audio s) \<Longrightarrow> stop_try w s = (Inl (Error ''Not recording''), s)"
  by (simp add: stop_try_def stopRecording_def)

lemma handle_output_sent: "sent (snd (handle_output w txt s)) = sent s"
  by (simp add: handle_output_def copyAndPaste_def Let_def split: prod.splits)

lemma stop_try_unconfigured:
  assumes "fst (stopRecording (audio s)) = Inr buf"
    and "\<not> isConfigured (transcription s)" and "openai_apiKey (config s) = []"
  shows "fst (stop_try w s)
           = Inl (Error ''OpenAI API key not configured. Please add it in Settings.'')
     \<and> sent (snd (stop_try w s)) = sent s @ [RecordingStateEv Processing]
     \<and> database (snd (stop_try w s)) = database s"
proof -
  obtain a where st: "stopRecording (audio s) = (Inr buf, a)"
    using assms(1) by (cases "stopRecording (audio s)") simp
  have "ensure_configured s
          = (Inl (Error ''OpenAI API key not configured. Please add it in Settings.''), s)"
    using assms(2,3) by (simp add: ensure_configured_def)
  then show ?thesis
    by (simp add: stop_try_def st ensure_configured_frame Let_def)
qed

lemma stop_try_configured:
  assumes st: "stopRecording (audio s) = (Inr buf, a)"
    and ec: "fst (ensure_configured s) = Inr ()"
  shows "stop_try w s =
     (let s2 = (snd (ensure_configured s))
                 \<lparr>audio := a, currentAudioBuffer := Some buf,
                  sent := sent s @ [RecordingStateEv Processing]\<rparr>
      in case manager_transcribe (w_kMaxLength w) (w_remote w)
                (transcription (snd (ensure_configured s))) buf (transcribe_options (config s)) of
           Inl err \<Rightarrow> (Inl err, s2)
         | Inr result \<Rightarrow>
             (case w_store w of
                Some err \<Rightarrow> (Inl err, s2)
              | None \<Rightarrow>
                  (case handle_output w (res_text result)
                          (s2\<lparr>database :=
                                snd (insert_db (w_now w) result
                                       (getServiceName (transcription (snd (ensure_configured s))))
                                       (database s))\<rparr>) of
                     (Inl err, s4) \<Rightarrow> (Inl err, s4)
                   | (Inr u, s4) \<Rightarrow>
                       (Inr result,
                        s4\<lparr>sent := sent s4 @ [TranscriptionResultEv result,
                                               RecordingStateEv Complete]\<rparr>))))"
  by (simp add: stop_try_def st ensure_configured_frame ec Let_def ensure_configured_config
      ensure_configured_database split: sum.splits option.splits)

lemma handle_output_paste_fails:
  "output_autoPaste (config s) \<Longrightarrow> w_paste w = Some err \<Longrightarrow>
   fst (handle_output w txt s) = Inl err \<and> database (snd (handle_output w txt s)) = database s"
  by (simp add: handle_output_def copyAndPaste_def paste_def Let_def)

lemma stop_try_transcribe_fails:
  assumes "fst (stopRecording (audio s)) = Inr buf" and "fst (ensure_configured s) = Inr ()"
    and "manager_transcribe (w_kMaxLength w) (w_remote w)
           (transcription (snd (ensure_configured s))) buf (transcribe_options (config s))
         = Inl err"
  shows "fst (stop_try w s) = Inl err
     \<and> sent (snd (stop_try w s)) = sent s @ [RecordingStateEv Processing]
     \<and> database (snd (stop_try w s)) = database s"
proof -
  obtain a where st: "stopRecording (audio s) = (Inr buf, a)"
    using assms(1) by (cases "stopRecording (audio s)") simp
  show ?thesis
    unfolding stop_try_configured [OF st assms(2)] using assms(3)
    by (simp add: Let_def ensure_configured_database)
qed

lemma stop_try_store_fails:
  assumes "fst (stopRecording (audio s)) = Inr buf" and "fst (ensure_configured s) = Inr ()"
    and "manager_transcribe (w_kMaxLength w) (w_remote w)
           (transcription (snd (ensure_configured s))) buf (transcribe_options (config s))
         = Inr result"
    and "w_store w = Some err"
  shows "fst (stop_try w s) = Inl err
     \<and> sent (snd (stop_try w s)) = sent s @ [RecordingStateEv Processing]
     \<and> database (snd (stop_try w s)) = database s"
proof -
  obtain a where st: "stopRecording (audio s) = (Inr buf, a)"
    using assms(1) by (cases "stopRecording (audio s)") simp
  show ?thesis
    unfolding stop_try_configured [OF st assms(2)] using assms(3,4)
    by (simp add: Let_def ensure_configured_database)
qed

lemma stop_try_paste_fails:
  assumes "fst (stopRecording (audio s)) = Inr buf" and "fst (ensure_configured s) = Inr ()"
    and "manager_transcribe (w_kMaxLength w) (w_remote w)
           (transcription (snd (ensure_configured s))) buf (transcribe_options (config s))
         = Inr result"
    and "w_store w = None" and "output_autoPaste (config s)" and "w_paste w = Some err"
  shows "fst (stop_try w s) = Inl err
     \<and> sent (snd (stop_try w s)) = sent s @ [RecordingStateEv Processing]
     \<and> database (snd (stop_try w s))
         = snd (insert_db (w_now w) result
                  (getServiceName (transcription (snd (ensure_configured s)))) (database s))"
proof -
  obtain a where st: "stopRecording (audio s) = (Inr buf, a)"
    using assms(1) by (cases "stopRecording (audio s)") simp
  define s3 where "s3 = (snd (ensure_configured s))
                 \<lparr>audio := a, currentAudioBuffer := Some buf,
                  sent := sent s @ [RecordingStateEv Processing],
                  database := snd (insert_db (w_now w) result
                                       (getServiceName (transcription (snd (ensure_configured s))))
                                       (database s))\<rparr>"
  have c: "output_autoPaste (config s3)"
    using assms(5) by (simp add: s3_def ensure_configured_config)
  obtain r4 s4 where ho: "handle_output w (res_text result) s3 = (r4, s4)"
    by (cases "handle_output w (res_text result) s3")
  from handle_output_paste_fails [OF c assms(6), of "res_text result"] ho
  have r4: "r4 = Inl err" "database s4 = database s3"
    by simp_all
  from handle_output_sent [of w "res_text result" s3] ho have r5: "sent s4 = sent s3"
    by simp
  have "stop_try w s = (Inl err, s4)"
    unfolding stop_try_configured [OF st assms(2)]
    using assms(3,4) ho r4(1) by (simp add: Let_def s3_def)
  with r4(2) r5 show ?thesis
    by (simp add: s3_def)
qed

lemma audio_stop_of_stop_try:
  "fst (stop_try w s) = Inl err \<Longrightarrow>
   fst (audio_stop w s) = Failure (error_message err ''Transcription failed'')
   \<and> sent (snd (audio_stop w s))
       = sent (snd (stop_try w s))
         @ [ErrorEv (error_message err ''Transcription failed''), RecordingStateEv ErrorState]
   \<and> database (snd (audio_stop w s)) = database (snd (stop_try w s))"
  by (cases "stop_try w s") (simp add: audio_stop_def Let_def)

text \<open>
  Claim C2, amended. Whatever \<open>audio:stop\<close> reports as a failure, it reports with
  exactly one error message followed by the state \<open>error\<close>, and the history is unchanged
  unless the paste failed after the insert. And every failing sub-step is so reported:
  stopping when nothing records; the lazy configuration without a stored key; the
  transcription (encoding included) throwing; the store rejecting the insert: each gives the
  failure reply with its message, the one error message and the state \<open>error\<close>, and
  leaves the history as it was. A failing paste is reported in the same way, but it runs
  after the insert, and the entry inserted for the cycle stays in the history.
\<close>

theorem audio_stop_failure:
  "(fst (audio_stop w s) = Failure msg \<longrightarrow>
      (failure_reported w s False msg \<or> failure_reported w s True msg)
      \<and> (database (snd (audio_stop w s)) = database s
         \<or> (output_autoPaste (config s)
            \<and> (\<exists>err. w_paste w = Some err \<and> msg = error_message err ''Transcription failed'')
            \<and> (\<exists>r svc. database (snd (audio_stop w s))
                           = snd (insert_db (w_now w) r svc (database s))))))
   \<and> (\<not> isRecording (audio s) \<longrightarrow>
        failure_reported w s False ''Not recording''
        \<and> database (snd (audio_stop w s)) = database s)
   \<and> (fst (stopRecording (audio s)) = Inr buf \<longrightarrow>
        (\<not> isConfigured (transcription s) \<and> openai_apiKey (config s) = [] \<longrightarrow>
           failure_reported w s True ''OpenAI API key not configured. Please add it in Settings.''
           \<and> database (snd (audio_stop w s)) = database s)
        \<and> (fst (ensure_configured s) = Inr () \<longrightarrow>
             (\<forall>err. manager_transcribe (w_kMaxLength w) (w_remote w)
                       (transcription (snd (ensure_configured s))) buf
                       (transcribe_options (config s)) = Inl err \<longrightarrow>
                failure_reported w s True (error_message err ''Transcription failed'')
                \<and> database (snd (audio_stop w s)) = database s)
             \<and> (\<forall>result. manager_transcribe (w_kMaxLength w) (w_remote w)
                          (transcription (snd (ensure_configured s))) buf
                          (transcribe_options (config s)) = Inr result \<longrightarrow>
                  (\<forall>err. w_store w = Some err \<longrightarrow>
                     failure_reported w s True (error_message err ''Transcription failed'')
                     \<and> database (snd (audio_stop w s)) = database s)
                  \<and> (\<forall>err. w_store w = None \<and> output_autoPaste (config s)
                            \<and> w_paste w = Some err \<longrightarrow>
                       failure_reported w s True (error_message err ''Transcription failed'')
                       \<and> database (snd (audio_stop w s))
                           = snd (insert_db (w_now w) result
                                    (getServiceName (transcription (snd (ensure_configured s))))
                                    (database s))))))"
proof (intro conjI impI allI)
  assume "fst (audio_stop w s) = Failure msg"
  from this audio_stop_failure_effects [OF this]
  show "failure_reported w s False msg \<or> failure_reported w s True msg"
    by (auto simp: failure_reported_def)
next
  assume "fst (audio_stop w s) = Failure msg"
  from audio_stop_failure_effects [OF this]
  show "database (snd (audio_stop w s)) = database s
         \<or> (output_autoPaste (config s)
            \<and> (\<exists>err. w_paste w = Some err \<and> msg = error_message err ''Transcription failed'')
            \<and> (\<exists>r svc. database (snd (audio_stop w s))
                           = snd (insert_db (w_now w) r svc (database s))))"
    by blast
next
  assume n: "\<not> isRecording (audio s)"
  from stop_try_not_recording [OF n, of w]
  show "failure_reported w s False ''Not recording''"
    by (simp add: failure_reported_def audio_stop_def Let_def error_message_def)
  from stop_try_not_recording [OF n, of w]
  show "database (snd (audio_stop w s)) = database s"
    by (simp add: audio_stop_def Let_def)
next
  assume b: "fst (stopRecording (audio s)) = Inr buf"
    and c: "\<not> isConfigured (transcription s) \<and> openai_apiKey (config s) = []"
  from c have c1: "\<not> isConfigured (transcription s)" and c2: "openai_apiKey (config s) = []"
    by simp_all
  note f = stop_try_unconfigured [OF b c1 c2, of w]
  from f audio_stop_of_stop_try [of w s, OF conjunct1 [OF f]]
  show "failure_reported w s True ''OpenAI API key not configured. Please add it in Settings.''"
    by (simp add: failure_reported_def error_message_def)
  from f audio_stop_of_stop_try [of w s, OF conjunct1 [OF f]]
  show "database (snd (audio_stop w s)) = database s"
    by simp
next
  fix err
  assume b: "fst (stopRecording (audio s)) = Inr buf"
    and e: "fst (ensure_configured s) = Inr ()"
    and t: "manager_transcribe (w_kMaxLength w) (w_remote w)
              (transcription (snd (ensure_configured s))) buf (transcribe_options (config s))
            = Inl err"
  note f = stop_try_transcribe_fails [OF b e t]
  from f audio_stop_of_stop_try [of w s, OF conjunct1 [OF f]]
  show "failure_reported w s True (error_message err ''Transcription failed'')"
    by (simp add: failure_reported_def)
  from f audio_stop_of_stop_try [of w s, OF conjunct1 [OF f]]
  show "database (snd (audio_stop w s)) = database s"
    by simp
next
  fix result err
  assume b: "fst (stopRecording (audio s)) = Inr buf"
    and e: "fst (ensure_configured s) = Inr ()"
    and t: "manager_transcribe (w_kMaxLength w) (w_remote w)
              (transcription (snd (ensure_configured s))) buf (transcribe_options (config s))
            = Inr result"
    and st: "w_store w = Some err"
  note f = stop_try_store_fails [OF b e t st]
  from f audio_stop_of_stop_try [of w s, OF conjunct1 [OF f]]
  show "failure_reported w s True (error_message err ''Transcription failed'')"
    by (simp add: failure_reported_def)
  from f audio_stop_of_stop_try [of w s, OF conjunct1 [OF f]]
  show "database (snd (audio_stop w s)) = database s"
    by simp
next
  fix result err
  assume b: "fst (stopRecording (audio s)) = Inr buf"
    and e: "fst (ensure_configured s) = Inr ()"
    and t: "manager_transcribe (w_kMaxLength w) (w_remote w)
              (transcription (snd (ensure_configured s))) buf (transcribe_options (config s))
            = Inr result"
    and p: "w_store w = None \<and> output_autoPaste (config s) \<and> w_paste w = Some err"
  from p have p1: "w_store w = None" and p2: "output_autoPaste (config s)"
    and p3: "w_paste w = Some err"
    by simp_all
  note f = stop_try_paste_fails [OF b e t p1 p2 p3]
  from f audio_stop_of_stop_try [of w s, OF conjunct1 [OF f]]
  show "failure_reported w s True (error_message err ''Transcription failed'')"
    by (simp add: failure_reported_def)
  from f audio_stop_of_stop_try [of w s, OF conjunct1 [OF f]]
  show "database (snd (audio_stop w s))
          = snd (insert_db (w_now w) result
                   (getServiceName (transcription (snd (ensure_configured s)))) (database s))"
    by simp
qed

lemma example_recording_eq:
  "example_recording =
     (initial_app example_config [])
       \<lparr>audio := new_AudioService\<lparr>isRecording := True, audioIO := True, emitted := [Started]\<rparr>,
        sent := [RecordingStateEv Recording]\<rparr>"
  by (simp add: example_recording_def audio_start_def startRecording_def initial_app_def
      example_world_def new_AudioService_def Let_def)

lemma encodeWav_empty:
  "encodeWav 4294967296 [] 16000 1 16 =
     Inr [82, 73, 70, 70, 36, 0, 0, 0, 87, 65, 86, 69, 102, 109, 116, 32, 16, 0, 0, 0,
          1, 0, 1, 0, 128, 62, 0, 0, 0, 125, 0, 0, 2, 0, 16, 0, 100, 97, 116, 97, 0, 0, 0, 0]"
  by (simp add: encodeWav_def Let_def and_then_def writeUInt32LE_def writeUInt16LE_def ascii_def)

lemma example_recording_stop: "fst (stopRecording (audio example_recording)) = Inr []"
  by (simp add: example_recording_eq stopRecording_def cleanup_def Let_def initial_app_def
      new_AudioService_def)

lemma example_recording_configured:
  "ensure_configured example_recording = (Inr (), example_recording)"
  by (simp add: ensure_configured_def example_recording_eq initial_app_def example_config_def
      isConfigured_def Map_has_def Map_get_def configureOpenAI_def new_TranscriptionManager_def)

lemma example_recording_fields:
  "database example_recording = new_TranscriptionDatabase"
  "sent example_recording = [RecordingStateEv Recording]"
  "config example_recording = example_config"
  "transcription example_recording =
     \<lparr>services = [(''openai'', \<lparr>svc_name = ''OpenAI Whisper'', svc_apiKey = ''sk-test'',
                                 svc_model = whisper_1\<rparr>)],
      primaryService = ''openai''\<rparr>"
  by (simp_all add: example_recording_eq initial_app_def example_config_def configureOpenAI_def
      new_TranscriptionManager_def Map_get_def new_OpenAITranscriptionService_def)

lemma example_transcribe:
  "manager_transcribe 4294967296 remote (transcription example_recording) []
     (transcribe_options example_config) =
   and_then (remote \<lparr>p_apiKey = ''sk-test'',
                     p_file = [82, 73, 70, 70, 36, 0, 0, 0, 87, 65, 86, 69, 102, 109, 116, 32,
                               16, 0, 0, 0, 1, 0, 1, 0, 128, 62, 0, 0, 0, 125, 0, 0, 2, 0, 16, 0,
                               100, 97, 116, 97, 0, 0, 0, 0],
                     p_model = whisper_1, p_language = None, p_prompt = None,
                     p_temperature = None, p_timestamp_granularities = None\<rparr>)
     (\<lambda>result.
         Inr \<lparr>res_text = a_text result,
              res_language = (if truthy (a_language result) then the (a_language result)
                              else ''unknown''),
              res_duration = (case a_duration result of None \<Rightarrow> 0 | Some d \<Rightarrow> d) * 1000,
              res_segments = map_option (map to_ms) (a_segments result),
              res_words = map_option (map to_ms) (a_words result)\<rparr>)"
  by (simp add: example_recording_fields manager_transcribe_def Map_get_def service_transcribe_def
      encodeWav_empty and_then_def transcribe_options_def example_config_def truthy_def Let_def
      del: One_nat_def)

lemma example_unconfigured_facts:
  "fst (stopRecording (audio example_unconfigured)) = Inr []"
  "\<not> isConfigured (transcription example_unconfigured)"
  "openai_apiKey (config example_unconfigured) = []"
  "database example_unconfigured = new_TranscriptionDatabase"
  by (simp_all add: example_unconfigured_def audio_start_def startRecording_def initial_app_def
      example_world_def new_AudioService_def Let_def example_config_def stopRecording_def
      cleanup_def isConfigured_def Map_has_def Map_get_def new_TranscriptionManager_def)

lemma example_result_ok:
  "manager_transcribe 4294967296 (\<lambda>p. Inr example_response) (transcription example_recording) []
     (transcribe_options example_config) =
   Inr \<lparr>res_text = ''hello world'', res_language = ''en'', res_duration = 1200,
        res_segments = None, res_words = None\<rparr>"
  by (simp add: example_transcribe and_then_def example_response_def truthy_def)


text \<open>
  Claim C2, as stated, for a failure of any sub-step: with the paste tool failing, the
  handler replies with the failure, and the history, empty before, holds the entry of that
  cycle.
\<close>

theorem audio_stop_paste_failure_counterexample:
  "fst (audio_stop (example_world\<lparr>w_paste := Some (Error ''xdotool: not found'')\<rparr>)
          example_recording) = Failure ''xdotool: not found''
   \<and> rows (database example_recording) = []
   \<and> rows (database (snd (audio_stop
              (example_world\<lparr>w_paste := Some (Error ''xdotool: not found'')\<rparr>)
              example_recording)))
       = [\<lparr>st_id = 1, st_text = ''hello world'', st_language = ''en'', st_duration = 1200,
           st_service = ''OpenAI Whisper'', st_createdAt = 1000\<rparr>]"
  by (simp add: example_recording_eq audio_stop_def stop_try_def stopRecording_def cleanup_def
      duration_ms_def ensure_configured_def isConfigured_def Map_has_def Map_get_def
      initial_app_def example_config_def example_world_def new_AudioService_def
      new_TranscriptionManager_def configureOpenAI_def new_OpenAITranscriptionService_def
      manager_transcribe_def service_transcribe_def encodeWav_empty and_then_def truthy_def
      example_response_def getServiceName_def insert_db_def new_TranscriptionDatabase_def
      Math_round_of_int [of 1200, simplified] transcriptions_ai_def handle_output_def
      copyAndPaste_def paste_def copy_def new_ClipboardManager_def error_message_def Let_def del: One_nat_def)

theorem audio_stop_failure_witness:
  "\<not> isRecording (audio (initial_app example_config []))
   \<and> failure_reported example_world (initial_app example_config []) False ''Not recording''
   \<and> fst (stopRecording (audio example_unconfigured)) = Inr []
   \<and> \<not> isConfigured (transcription example_unconfigured)
   \<and> failure_reported example_world example_unconfigured True
        ''OpenAI API key not configured. Please add it in Settings.''
   \<and> database (snd (audio_stop example_world example_unconfigured)) = new_TranscriptionDatabase
   \<and> fst (stopRecording (audio example_recording)) = Inr []
   \<and> fst (ensure_configured example_recording) = Inr ()
   \<and> failure_reported (example_world\<lparr>w_remote := (\<lambda>p. Inl (Error ''rate limited''))\<rparr>)
        example_recording True ''rate limited''
   \<and> database (snd (audio_stop (example_world\<lparr>w_remote := (\<lambda>p. Inl (Error ''rate limited''))\<rparr>)
                       example_recording)) = new_TranscriptionDatabase
   \<and> failure_reported (example_world\<lparr>w_store := Some (Error ''database is locked'')\<rparr>)
        example_recording True ''database is locked''
   \<and> database (snd (audio_stop (example_world\<lparr>w_store := Some (Error ''database is locked'')\<rparr>)
                       example_recording)) = new_TranscriptionDatabase
   \<and> failure_reported (example_world\<lparr>w_paste := Some (Error ''xdotool: not found'')\<rparr>)
        example_recording True ''xdotool: not found''
   \<and> rows (database (snd (audio_stop (example_world\<lparr>w_paste := Some (Error ''xdotool: not found'')\<rparr>)
                       example_recording)))
       = [\<lparr>st_id = 1, st_text = ''hello world'', st_language = ''en'', st_duration = 1200,
           st_service = ''OpenAI Whisper'', st_createdAt = 1000\<rparr>]"
proof -
  let ?W1 = "example_world\<lparr>w_remote := (\<lambda>p. Inl (Error ''rate limited''))\<rparr>"
  let ?W2 = "example_world\<lparr>w_store := Some (Error ''database is locked'')\<rparr>"
  let ?W3 = "example_world\<lparr>w_paste := Some (Error ''xdotool: not found'')\<rparr>"
  let ?r = "\<lparr>res_text = ''hello world'', res_language = ''en'', res_duration = 1200,
            res_segments = None, res_words = None\<rparr>"
  have n: "\<not> isRecording (audio (initial_app example_config []))"
    by (simp add: initial_app_def new_AudioService_def)
  have d0: "database (initial_app example_config []) = new_TranscriptionDatabase"
    by (simp add: initial_app_def)
  from n audio_stop_failure [where w = example_world and s = "initial_app example_config []"]
  have a: "failure_reported example_world (initial_app example_config []) False ''Not recording''"
    by simp
  from example_unconfigured_facts
    audio_stop_failure [where w = example_world and s = example_unconfigured and buf = "[]"]
  have b: "failure_reported example_world example_unconfigured True
             ''OpenAI API key not configured. Please add it in Settings.''
           \<and> database (snd (audio_stop example_world example_unconfigured))
               = new_TranscriptionDatabase"
    by simp
  have e: "fst (ensure_configured example_recording) = Inr ()"
    by (simp add: example_recording_configured)
  have t1: "manager_transcribe (w_kMaxLength ?W1) (w_remote ?W1)
              (transcription (snd (ensure_configured example_recording))) []
              (transcribe_options (config example_recording)) = Inl (Error ''rate limited'')"
    by (simp add: example_recording_configured example_recording_fields(3) example_world_def
        example_transcribe and_then_def)
  from example_recording_stop e t1
    audio_stop_failure [where w = ?W1 and s = example_recording and buf = "[]"]
  have c: "failure_reported ?W1 example_recording True ''rate limited''
           \<and> database (snd (audio_stop ?W1 example_recording)) = new_TranscriptionDatabase"
    by (simp add: error_message_def example_recording_fields(1))
  have t2: "manager_transcribe (w_kMaxLength ?W2) (w_remote ?W2)
              (transcription (snd (ensure_configured example_recording))) []
              (transcribe_options (config example_recording)) = Inr ?r"
    by (simp add: example_recording_configured example_recording_fields(3) example_world_def
        example_result_ok)
  have s2: "w_store ?W2 = Some (Error ''database is locked'')"
    by simp
  from example_recording_stop e t2 s2
    audio_stop_failure [where w = ?W2 and s = example_recording and buf = "[]"]
  have d: "failure_reported ?W2 example_recording True ''database is locked''
           \<and> database (snd (audio_stop ?W2 example_recording)) = new_TranscriptionDatabase"
    by (simp add: error_message_def example_recording_fields(1))
  have t3: "manager_transcribe (w_kMaxLength ?W3) (w_remote ?W3)
              (transcription (snd (ensure_configured example_recording))) []
              (transcribe_options (config example_recording)) = Inr ?r"
    by (simp add: example_recording_configured example_recording_fields(3) example_world_def
        example_result_ok)
  have s3: "w_store ?W3 = None \<and> output_autoPaste (config example_recording)
            \<and> w_paste ?W3 = Some (Error ''xdotool: not found'')"
    by (simp add: example_world_def example_recording_fields(3) example_config_def)
  from example_recording_stop e t3 s3
    audio_stop_failure [where w = ?W3 and s = example_recording and buf = "[]"]
  have f: "failure_reported ?W3 example_recording True ''xdotool: not found''
           \<and> database (snd (audio_stop ?W3 example_recording))
               = snd (insert_db (w_now ?W3) ?r
                        (getServiceName (transcription (snd (ensure_configured example_recording))))
                        (database example_recording))"
    by (simp add: error_message_def)
  have g: "rows (snd (insert_db (w_now ?W3) ?r
                        (getServiceName (transcription (snd (ensure_configured example_recording))))
                        (database example_recording)))
           = [\<lparr>st_id = 1, st_text = ''hello world'', st_language = ''en'', st_duration = 1200,
               st_service = ''OpenAI Whisper'', st_createdAt = 1000\<rparr>]"
    by (simp add: example_recording_configured example_recording_fields example_world_def
        getServiceName_def Map_get_def insert_db_def new_TranscriptionDatabase_def Let_def
        Math_round_of_int [of 1200, simplified])
  from n a example_unconfigured_facts(1,2) b example_recording_stop e c d f g
  show ?thesis
    by simp
qed

end
